theory Spec2Isabelle
  imports Complex_Main
begin

section \<open>Data model (\<^verbatim>\<open>frontend/src/types/index.ts\<close>)\<close>

text \<open>
  The interfaces of \<^verbatim>\<open>types/index.ts\<close> as records. An optional field (\<^verbatim>\<open>summary?\<close>) and a
  nullable one (\<^verbatim>\<open>string | null\<close>) are options. A TypeScript \<^verbatim>\<open>number\<close> that counts
  (ids, offsets, totals, milliseconds) is an \<open>int\<close> (a fractional or \<^verbatim>\<open>NaN\<close> offset is
  outside the model); \<^verbatim>\<open>confidence\<close> is a \<open>real\<close>, and the
  store only copies it and resets it to 0. A string is a list of bytes (UTF-8).

  Field names are the source's. Where two interfaces share a field name, the request and
  response records carry a suffix (\<open>_req\<close>, \<open>_resp\<close>) and the RAG state's flags the suffix
  \<open>_rag\<close>; \<^verbatim>\<open>id\<close> and \<^verbatim>\<open>total\<close> are names of HOL constants, so they are \<open>article_id\<close> and
  \<open>total_st\<close>.
\<close>

record Article =
  article_id :: int
  title :: string
  content :: string
  summary :: "string option"
  url :: string
  published_date :: string
  author :: "string option"
  source :: "string option"
  category :: "string option"
  image_url :: "string option"
  tags :: "string list"
  created_at :: string
  updated_at :: string

record SearchRequest =
  query_req :: string
  limit :: "int option"
  offset :: "int option"

record SearchResponse =
  results_resp :: "Article list"
  total_resp :: int
  query_resp :: string
  took_ms :: int

record RAGRequest =
  question_req :: string
  max_articles :: "int option"
  include_sources :: "bool option"

record RAGResponse =
  answer_resp :: string
  sources_resp :: "Article list"
  confidence_resp :: real
  took_ms_rag :: int

record ApiError =
  message :: string
  status :: int
  code :: "string option"

record SearchState =
  query :: string
  results :: "Article list"
  loading :: bool
  error :: "string option"
  hasMore :: bool
  total_st :: int

record RAGState =
  question :: string
  answer :: "string option"
  sources :: "Article list"
  loading_rag :: bool
  error_rag :: "string option"
  confidence :: real

section \<open>The API boundary (\<^verbatim>\<open>@/lib/api\<close>)\<close>

text \<open>
  Modelled from the spec: the module \<^verbatim>\<open>lib/api.ts\<close> (\<^verbatim>\<open>searchApi\<close> and the type guard
  \<^verbatim>\<open>isApiError\<close>) is not among the sources. Its three endpoints are external calls that
  either resolve with a response or reject with a thrown value, so the outcome of an
  awaited call is a parameter of the model, of type \<open>thrown + response\<close> (\<open>Inl\<close> the
  rejection). The spec says a failure is "normalized to a single error value carrying an
  optional message string": a thrown value is an \<^verbatim>\<open>ApiError\<close>, whose \<^verbatim>\<open>message\<close> the store
  reads, or any other value, for which \<^verbatim>\<open>isApiError\<close> is false.
\<close>

datatype thrown = ApiFailure (apiError: ApiError) | OtherFailure

fun isApiError :: "thrown \<Rightarrow> bool" where
  "isApiError (ApiFailure e) = True"
| "isApiError OtherFailure = False"

text \<open>The request a store action hands to \<^verbatim>\<open>searchApi\<close>, tagged with the endpoint it calls.\<close>

datatype api_call =
  KeywordSearchCall SearchRequest
| SemanticSearchCall SearchRequest
| RagSearchCall RAGRequest

section \<open>The search store (\<^verbatim>\<open>useSearchStore\<close>, \<^verbatim>\<open>store/index.ts\<close>)\<close>

text \<open>
  The fallback messages of the two \<^verbatim>\<open>catch\<close> blocks, as the UTF-8 bytes of the Korean
  literals of lines 60 and 93. The semantic one is the keyword one behind a ten-byte prefix.
\<close>

definition keywordFallback :: string where
  "keywordFallback =
    [CHR 0xEA, CHR 0xB2, CHR 0x80, CHR 0xEC, CHR 0x83, CHR 0x89, CHR 0x20, CHR 0xEC,
     CHR 0xA4, CHR 0x91, CHR 0x20, CHR 0xEC, CHR 0x98, CHR 0xA4, CHR 0xEB, CHR 0xA5,
     CHR 0x98, CHR 0xEA, CHR 0xB0, CHR 0x80, CHR 0x20, CHR 0xEB, CHR 0xB0, CHR 0x9C,
     CHR 0xEC, CHR 0x83, CHR 0x9D, CHR 0xED, CHR 0x96, CHR 0x88, CHR 0xEC, CHR 0x8A,
     CHR 0xB5, CHR 0xEB, CHR 0x8B, CHR 0x88, CHR 0xEB, CHR 0x8B, CHR 0xA4, CHR 0x2E]"

definition semanticFallback :: string where
  "semanticFallback =
    [CHR 0xEC, CHR 0x8B, CHR 0x9C, CHR 0xEB, CHR 0xA7, CHR 0xA8, CHR 0xED, CHR 0x8B,
     CHR 0xB1, CHR 0x20] @ keywordFallback"

text \<open>The initial state of the store (lines 20 to 25).\<close>

definition initialSearchState :: SearchState where
  "initialSearchState =
    \<lparr>query = [], results = [], loading = False, error = None, hasMore = True, total_st = 0\<rparr>"

definition setQuery :: "string \<Rightarrow> SearchState \<Rightarrow> SearchState" where
  "setQuery q s = s\<lparr>query := q\<rparr>"

definition setResults :: "Article list \<Rightarrow> SearchState \<Rightarrow> SearchState" where
  "setResults rs s = s\<lparr>results := rs\<rparr>"

text \<open>
  An \<^verbatim>\<open>async\<close> action runs in two parts, with the \<^verbatim>\<open>await\<close> between them. The part before
  it (lines 37 to 51) reads the store, writes it once and builds the request: it returns
  the new state, the \<^verbatim>\<open>currentResults\<close> the closure keeps, and the call it issues. The part
  after it (lines 53 to 66) takes the offset and \<^verbatim>\<open>currentResults\<close> of the closure and the
  outcome of the call, and writes the store as it is at that moment.
\<close>

definition keywordSearch_issue ::
  "string \<Rightarrow> int \<Rightarrow> SearchState \<Rightarrow> SearchState \<times> Article list \<times> api_call" where
  "keywordSearch_issue q n s =
    (let currentResults = (if n > 0 then results s else [])
     in (s\<lparr>loading := True, error := None, query := q,
            results := (if n = 0 then [] else currentResults)\<rparr>,
         currentResults,
         KeywordSearchCall \<lparr>query_req = q, limit = Some 20, offset = Some n\<rparr>))"

definition keywordSearch_settle ::
  "int \<Rightarrow> Article list \<Rightarrow> thrown + SearchResponse \<Rightarrow> SearchState \<Rightarrow> SearchState" where
  "keywordSearch_settle n currentResults outcome s =
    (case outcome of
       Inr response \<Rightarrow>
         s\<lparr>results := (if n = 0 then results_resp response
                        else currentResults @ results_resp response),
           total_st := total_resp response,
           hasMore := (n + int (length (results_resp response)) < total_resp response),
           loading := False\<rparr>
     | Inl err \<Rightarrow>
         (let errorMessage =
                (if isApiError err then message (apiError err) else keywordFallback)
          in s\<lparr>error := Some errorMessage, loading := False, hasMore := False\<rparr>))"

definition semanticSearch_issue ::
  "string \<Rightarrow> int \<Rightarrow> SearchState \<Rightarrow> SearchState \<times> Article list \<times> api_call" where
  "semanticSearch_issue q n s =
    (let currentResults = (if n > 0 then results s else [])
     in (s\<lparr>loading := True, error := None, query := q,
            results := (if n = 0 then [] else currentResults)\<rparr>,
         currentResults,
         SemanticSearchCall \<lparr>query_req = q, limit = Some 20, offset = Some n\<rparr>))"

definition semanticSearch_settle ::
  "int \<Rightarrow> Article list \<Rightarrow> thrown + SearchResponse \<Rightarrow> SearchState \<Rightarrow> SearchState" where
  "semanticSearch_settle n currentResults outcome s =
    (case outcome of
       Inr response \<Rightarrow>
         s\<lparr>results := (if n = 0 then results_resp response
                        else currentResults @ results_resp response),
           total_st := total_resp response,
           hasMore := (n + int (length (results_resp response)) < total_resp response),
           loading := False\<rparr>
     | Inl err \<Rightarrow>
         (let errorMessage =
                (if isApiError err then message (apiError err) else semanticFallback)
          in s\<lparr>error := Some errorMessage, loading := False, hasMore := False\<rparr>))"

text \<open>
  One whole call, from the state \<open>s\<close> it starts in to the state it leaves, when nothing
  else writes the store while the request is in flight.
\<close>

definition keywordSearch ::
  "string \<Rightarrow> int \<Rightarrow> thrown + SearchResponse \<Rightarrow> SearchState \<Rightarrow> SearchState" where
  "keywordSearch q n outcome s =
    (case keywordSearch_issue q n s of
       (s', currentResults, call) \<Rightarrow> keywordSearch_settle n currentResults outcome s')"

definition semanticSearch ::
  "string \<Rightarrow> int \<Rightarrow> thrown + SearchResponse \<Rightarrow> SearchState \<Rightarrow> SearchState" where
  "semanticSearch q n outcome s =
    (case semanticSearch_issue q n s of
       (s', currentResults, call) \<Rightarrow> semanticSearch_settle n currentResults outcome s')"

definition clearResults :: "SearchState \<Rightarrow> SearchState" where
  "clearResults s = s\<lparr>results := [], total_st := 0, hasMore := True, error := None\<rparr>"

definition clearError :: "SearchState \<Rightarrow> SearchState" where
  "clearError s = s\<lparr>error := None\<rparr>"

section \<open>The question store (\<^verbatim>\<open>useRAGStore\<close>, \<^verbatim>\<open>store/index.ts\<close>)\<close>

text \<open>The fallback message of line 169, as UTF-8 bytes.\<close>

definition ragFallback :: string where
  "ragFallback =
    [CHR 0x41, CHR 0x49, CHR 0x20, CHR 0xEB, CHR 0x8B, CHR 0xB5, CHR 0xEB, CHR 0xB3,
     CHR 0x80, CHR 0x20, CHR 0xEC, CHR 0x83, CHR 0x9D, CHR 0xEC, CHR 0x84, CHR 0xB1,
     CHR 0x20, CHR 0xEC, CHR 0xA4, CHR 0x91, CHR 0x20, CHR 0xEC, CHR 0x98, CHR 0xA4,
     CHR 0xEB, CHR 0xA5, CHR 0x98, CHR 0xEA, CHR 0xB0, CHR 0x80, CHR 0x20, CHR 0xEB,
     CHR 0xB0, CHR 0x9C, CHR 0xEC, CHR 0x83, CHR 0x9D, CHR 0xED, CHR 0x96, CHR 0x88,
     CHR 0xEC, CHR 0x8A, CHR 0xB5, CHR 0xEB, CHR 0x8B, CHR 0x88, CHR 0xEB, CHR 0x8B,
     CHR 0xA4, CHR 0x2E]"

definition initialRAGState :: RAGState where
  "initialRAGState =
    \<lparr>question = [], answer = None, sources = [], loading_rag = False, error_rag = None,
     confidence = 0\<rparr>"

definition setQuestion :: "string \<Rightarrow> RAGState \<Rightarrow> RAGState" where
  "setQuestion q s = s\<lparr>question := q\<rparr>"

text \<open>
  \<^verbatim>\<open>askQuestion\<close> before its \<^verbatim>\<open>await\<close> (lines 146 to 160): one write of the store, then the
  request. There is no test of \<^verbatim>\<open>question\<close> on the way: the call is issued for every text.
\<close>

definition askQuestion_issue :: "string \<Rightarrow> int \<Rightarrow> RAGState \<Rightarrow> RAGState \<times> api_call" where
  "askQuestion_issue q maxArticles s =
    (s\<lparr>loading_rag := True, error_rag := None, question := q, answer := None,
       sources := [], confidence := 0\<rparr>,
     RagSearchCall
       \<lparr>question_req = q, max_articles = Some maxArticles, include_sources = Some True\<rparr>)"

definition askQuestion_settle :: "thrown + RAGResponse \<Rightarrow> RAGState \<Rightarrow> RAGState" where
  "askQuestion_settle outcome s =
    (case outcome of
       Inr response \<Rightarrow>
         s\<lparr>answer := Some (answer_resp response), sources := sources_resp response,
           confidence := confidence_resp response, loading_rag := False\<rparr>
     | Inl err \<Rightarrow>
         (let errorMessage =
                (if isApiError err then message (apiError err) else ragFallback)
          in s\<lparr>error_rag := Some errorMessage, loading_rag := False\<rparr>))"

definition askQuestion :: "string \<Rightarrow> int \<Rightarrow> thrown + RAGResponse \<Rightarrow> RAGState \<Rightarrow> RAGState" where
  "askQuestion q maxArticles outcome s =
    (case askQuestion_issue q maxArticles s of
       (s', call) \<Rightarrow> askQuestion_settle outcome s')"

definition clearAnswer :: "RAGState \<Rightarrow> RAGState" where
  "clearAnswer s = s\<lparr>answer := None, sources := [], confidence := 0, error_rag := None\<rparr>"

definition clearError_rag :: "RAGState \<Rightarrow> RAGState" where
  "clearError_rag s = s\<lparr>error_rag := None\<rparr>"

section \<open>The search store as a transition system\<close>

text \<open>
  The store does not cancel or order its requests, so a second action may run between the
  two parts of a search. A configuration is the store's state together with the requests
  in flight; each holds what its closure keeps: which of the two actions it is, its offset
  and its \<^verbatim>\<open>currentResults\<close>. A request settles at any time, in any order, with any outcome.
\<close>

datatype kind = Keyword | Semantic

type_synonym pending = "kind \<times> int \<times> Article list"

fun settle :: "pending \<Rightarrow> thrown + SearchResponse \<Rightarrow> SearchState \<Rightarrow> SearchState" where
  "settle (Keyword, n, currentResults) outcome s = keywordSearch_settle n currentResults outcome s"
| "settle (Semantic, n, currentResults) outcome s = semanticSearch_settle n currentResults outcome s"

inductive reachable :: "SearchState \<times> pending list \<Rightarrow> bool" where
  r_init: "reachable (initialSearchState, [])"
| r_setQuery: "reachable (s, ps) \<Longrightarrow> reachable (setQuery q s, ps)"
| r_setResults: "reachable (s, ps) \<Longrightarrow> reachable (setResults rs s, ps)"
| r_keyword_issue:
    "reachable (s, ps) \<Longrightarrow> keywordSearch_issue q n s = (s', cur, call) \<Longrightarrow>
     reachable (s', (Keyword, n, cur) # ps)"
| r_semantic_issue:
    "reachable (s, ps) \<Longrightarrow> semanticSearch_issue q n s = (s', cur, call) \<Longrightarrow>
     reachable (s', (Semantic, n, cur) # ps)"
| r_settle:
    "reachable (s, ps) \<Longrightarrow> p \<in> set ps \<Longrightarrow>
     reachable (settle p outcome s, remove1 p ps)"
| r_clearResults: "reachable (s, ps) \<Longrightarrow> reachable (clearResults s, ps)"
| r_clearError: "reachable (s, ps) \<Longrightarrow> reachable (clearError s, ps)"

section \<open>Example data\<close>

text \<open>An article with a given id, and a response holding a page of them, for the worked instances.\<close>

definition exampleArticle :: "int \<Rightarrow> Article" where
  "exampleArticle i =
    \<lparr>article_id = i, title = ''t'', content = ''c'', summary = None, url = ''u'',
     published_date = ''2024-01-01'', author = None, source = None, category = None,
     image_url = None, tags = [], created_at = ''2024-01-01'', updated_at = ''2024-01-01''\<rparr>"

definition exampleResponse :: "int list \<Rightarrow> int \<Rightarrow> SearchResponse" where
  "exampleResponse ids n =
    \<lparr>results_resp = map exampleArticle ids, total_resp = n, query_resp = ''AI'', took_ms = 1\<rparr>"

section \<open>Properties of the search store\<close>

lemmas search_defs =
  keywordSearch_def keywordSearch_issue_def keywordSearch_settle_def
  semanticSearch_def semanticSearch_issue_def semanticSearch_settle_def Let_def

lemmas ask_defs = askQuestion_def askQuestion_issue_def askQuestion_settle_def

lemmas example_defs = initialSearchState_def exampleResponse_def exampleArticle_def

lemma fallbacks_differ: "keywordFallback \<noteq> semanticFallback"
  by (simp add: semanticFallback_def)

text \<open>
  Claim C1. A search call (keyword or semantic) with query \<open>q\<close> and offset \<open>n\<close> that succeeds
  with response \<open>r\<close>: for \<open>n = 0\<close> the final results are exactly those of \<open>r\<close>, in order; for
  \<open>n > 0\<close> they are the results before the call followed by those of \<open>r\<close>, a plain
  concatenation (nothing reordered, nothing dropped as a duplicate); \<open>total\<close> is the
  response's, \<open>hasMore\<close> is \<open>n + length r.results < r.total\<close>, and \<open>loading\<close> is false.
\<close>

theorem search_success_results:
  "(n = 0 \<longrightarrow> results (keywordSearch q n (Inr r) s) = results_resp r) \<and>
   (n > 0 \<longrightarrow> results (keywordSearch q n (Inr r) s) = results s @ results_resp r) \<and>
   total_st (keywordSearch q n (Inr r) s) = total_resp r \<and>
   hasMore (keywordSearch q n (Inr r) s) = (n + int (length (results_resp r)) < total_resp r) \<and>
   loading (keywordSearch q n (Inr r) s) = False \<and>
   (n = 0 \<longrightarrow> results (semanticSearch q n (Inr r) s) = results_resp r) \<and>
   (n > 0 \<longrightarrow> results (semanticSearch q n (Inr r) s) = results s @ results_resp r) \<and>
   total_st (semanticSearch q n (Inr r) s) = total_resp r \<and>
   hasMore (semanticSearch q n (Inr r) s) = (n + int (length (results_resp r)) < total_resp r) \<and>
   loading (semanticSearch q n (Inr r) s) = False"
  by (simp add: search_defs)

text \<open>
  A first page with ids 1 and 2 out of 4, then a second page at offset 2 that repeats id 2:
  the store then holds the ids 1, 2, 2, 3.
\<close>

theorem search_success_results_witness:
  "results (keywordSearch ''AI'' 0 (Inr (exampleResponse [1, 2] 4)) initialSearchState)
     = map exampleArticle [1, 2] \<and>
   hasMore (keywordSearch ''AI'' 0 (Inr (exampleResponse [1, 2] 4)) initialSearchState) \<and>
   results (semanticSearch ''AI'' 2 (Inr (exampleResponse [2, 3] 4))
      (keywordSearch ''AI'' 0 (Inr (exampleResponse [1, 2] 4)) initialSearchState))
     = map exampleArticle [1, 2, 2, 3] \<and>
   \<not> hasMore (semanticSearch ''AI'' 2 (Inr (exampleResponse [2, 3] 4))
      (keywordSearch ''AI'' 0 (Inr (exampleResponse [1, 2] 4)) initialSearchState))"
  using search_success_results [of 0 "''AI''" "exampleResponse [1, 2] 4" initialSearchState]
    search_success_results [of 2 "''AI''" "exampleResponse [2, 3] 4"
      "keywordSearch ''AI'' 0 (Inr (exampleResponse [1, 2] 4)) initialSearchState"]
  by (simp add: exampleResponse_def)


text \<open>
  Claim C3, as stated: after a search response has been applied,
  \<open>offset + results.length \<le> total\<close>, for the offset of that call. It fails in two ways.
  On ordinary pagination, since \<open>results\<close> accumulates every page: three articles in all, a
  first page of two, then the third at offset 2, and the store holds three results, with
  \<open>2 + 3 > 3\<close>. And on a first page whose response holds more results than the total it
  reports (two results, total 1), since the store copies both fields as they come.
\<close>

theorem offset_invariant_counterexample:
  "\<not> (2 + int (length (results
        (keywordSearch ''AI'' 2 (Inr (exampleResponse [3] 3))
          (keywordSearch ''AI'' 0 (Inr (exampleResponse [1, 2] 3)) initialSearchState))))
      \<le> total_st
        (keywordSearch ''AI'' 2 (Inr (exampleResponse [3] 3))
          (keywordSearch ''AI'' 0 (Inr (exampleResponse [1, 2] 3)) initialSearchState))) \<and>
   \<not> (0 + int (length (results
        (keywordSearch ''AI'' 0 (Inr (exampleResponse [1, 2] 1)) initialSearchState)))
      \<le> total_st
        (keywordSearch ''AI'' 0 (Inr (exampleResponse [1, 2] 1)) initialSearchState))"
  by (simp add: search_defs example_defs)

text \<open>The length of \<open>results\<close>, \<open>total\<close> and \<open>hasMore\<close> after a successful call, in terms of its inputs.\<close>

lemma search_success_length:
  assumes "s' = keywordSearch q n (Inr r) s \<or> s' = semanticSearch q n (Inr r) s"
  shows "int (length (results s')) =
           (if 0 < n then int (length (results s)) else 0) + int (length (results_resp r))"
    and "total_st s' = total_resp r"
    and "hasMore s' = (n + int (length (results_resp r)) < total_resp r)"
  using assms by (auto simp: search_defs)

text \<open>
  Claim C3, amended. Take a successful search with offset \<open>n\<close> whose response fits its own
  total, \<open>n + length r.results \<le> r.total\<close>. Then, in the state it leaves:
  \<^item> for a first page (\<open>n = 0\<close>), \<open>offset + results.length \<le> total\<close>, as stated, whether
    \<open>hasMore\<close> is left true or false;
  \<^item> if \<open>n = 0\<close>, or no more than \<open>n\<close> results were loaded before the call,
    \<open>results.length \<le> total\<close>;
  \<^item> if \<open>n = 0\<close>, or \<open>n\<close> is the number of results loaded before the call,
    \<open>results.length = n + length r.results\<close>, and \<open>hasMore\<close> is true exactly when
    \<open>results.length < total\<close>;
  \<^item> for such an \<open>n > 0\<close>, the stated bound \<open>offset + results.length \<le> total\<close> holds exactly
    when \<open>2 * n + length r.results \<le> total\<close>, so it fails on every later page that comes
    within \<open>n\<close> of the total.
\<close>

theorem results_within_total:
  assumes call: "s' = keywordSearch q n (Inr r) s \<or> s' = semanticSearch q n (Inr r) s"
    and fits: "n + int (length (results_resp r)) \<le> total_resp r"
  shows "(n = 0 \<longrightarrow> n + int (length (results s')) \<le> total_st s') \<and>
         (n = 0 \<or> int (length (results s)) \<le> n \<longrightarrow> int (length (results s')) \<le> total_st s') \<and>
         (n = 0 \<or> n = int (length (results s)) \<longrightarrow>
            int (length (results s')) = n + int (length (results_resp r)) \<and>
            hasMore s' = (int (length (results s')) < total_st s')) \<and>
         (0 < n \<and> n = int (length (results s)) \<longrightarrow>
            (n + int (length (results s')) \<le> total_st s') =
            (2 * n + int (length (results_resp r)) \<le> total_resp r))"
proof -
  note len = search_success_length(1) [OF call]
  note tot = search_success_length(2) [OF call]
  note more = search_success_length(3) [OF call]
  have first: "n = 0 \<longrightarrow> n + int (length (results s')) \<le> total_st s'"
    using fits by (simp add: len tot)
  have within: "n = 0 \<or> int (length (results s)) \<le> n \<longrightarrow> int (length (results s')) \<le> total_st s'"
    using fits by (auto simp: len tot)
  have exact: "n = 0 \<or> n = int (length (results s)) \<longrightarrow>
      int (length (results s')) = n + int (length (results_resp r)) \<and>
      hasMore s' = (int (length (results s')) < total_st s')"
    by (auto simp: len tot more)
  have later: "0 < n \<and> n = int (length (results s)) \<longrightarrow>
      (n + int (length (results s')) \<le> total_st s') =
      (2 * n + int (length (results_resp r)) \<le> total_resp r)"
    by (auto simp: len tot)
  from first within exact later show ?thesis by blast
qed

text \<open>
  A first page that is also the last (one result, total 1), and the third result of three
  fetched at offset 2 after a first page of two.
\<close>

theorem results_within_total_witness:
  "0 + int (length (results_resp (exampleResponse [1] 1))) \<le> total_resp (exampleResponse [1] 1) \<and>
   0 + int (length (results
       (keywordSearch ''AI'' 0 (Inr (exampleResponse [1] 1)) initialSearchState)))
     \<le> total_st (keywordSearch ''AI'' 0 (Inr (exampleResponse [1] 1)) initialSearchState) \<and>
   \<not> hasMore (keywordSearch ''AI'' 0 (Inr (exampleResponse [1] 1)) initialSearchState) \<and>
   2 + int (length (results_resp (exampleResponse [3] 3))) \<le> total_resp (exampleResponse [3] 3) \<and>
   2 = int (length (results
       (keywordSearch ''AI'' 0 (Inr (exampleResponse [1, 2] 3)) initialSearchState))) \<and>
   int (length (results
       (semanticSearch ''AI'' 2 (Inr (exampleResponse [3] 3))
         (keywordSearch ''AI'' 0 (Inr (exampleResponse [1, 2] 3)) initialSearchState)))) = 3 \<and>
   total_st
       (semanticSearch ''AI'' 2 (Inr (exampleResponse [3] 3))
         (keywordSearch ''AI'' 0 (Inr (exampleResponse [1, 2] 3)) initialSearchState)) = 3 \<and>
   \<not> hasMore
       (semanticSearch ''AI'' 2 (Inr (exampleResponse [3] 3))
         (keywordSearch ''AI'' 0 (Inr (exampleResponse [1, 2] 3)) initialSearchState))"
proof -
  let ?r1 = "exampleResponse [1] 1"
  let ?a = "keywordSearch ''AI'' 0 (Inr ?r1) initialSearchState"
  let ?r2 = "exampleResponse [1, 2] 3"
  let ?r3 = "exampleResponse [3] 3"
  let ?b = "keywordSearch ''AI'' 0 (Inr ?r2) initialSearchState"
  let ?c = "semanticSearch ''AI'' 2 (Inr ?r3) ?b"
  have f1: "0 + int (length (results_resp ?r1)) \<le> total_resp ?r1"
    by (simp add: exampleResponse_def)
  have f3: "2 + int (length (results_resp ?r3)) \<le> total_resp ?r3"
    by (simp add: exampleResponse_def)
  have lb: "2 = int (length (results ?b))"
    by (simp add: search_defs exampleResponse_def)
  have l1: "int (length (results_resp ?r1)) = 1" and l3: "int (length (results_resp ?r3)) = 1"
    by (simp_all add: exampleResponse_def)
  have ta: "total_st ?a = 1" and tc: "total_st ?c = 3"
    by (simp_all add: search_defs exampleResponse_def)
  note A = results_within_total [of ?a "''AI''" 0 ?r1 initialSearchState, OF _ f1]
  note C = results_within_total [of ?c "''AI''" 2 ?r3 ?b, OF _ f3]
  have a1: "0 + int (length (results ?a)) \<le> total_st ?a"
    using A by simp
  have a2: "\<not> hasMore ?a"
    using A l1 ta by auto
  have c1: "int (length (results ?c)) = 3"
    using C lb l3 by auto
  have c2: "\<not> hasMore ?c"
    using C lb l3 tc by auto
  from f1 a1 a2 f3 lb c1 tc c2 show ?thesis by blast
qed

text \<open>
  Claim C6. In every configuration the store reaches by its actions (\<^verbatim>\<open>setQuery\<close>,
  \<^verbatim>\<open>setResults\<close>, the two searches at issue and at settlement, in any interleaving,
  \<^verbatim>\<open>clearResults\<close>, \<^verbatim>\<open>clearError\<close>), \<open>loading\<close> is not true while \<open>error\<close> is present; and a
  settlement that sets an error sets \<open>loading\<close> to false.
\<close>

lemma settle_failure: "error (settle p (Inl t) s) \<noteq> None \<and> \<not> loading (settle p (Inl t) s)"
proof -
  obtain k n cur where p: "p = (k, n, cur)" by (cases p) auto
  show ?thesis unfolding p
    by (cases k) (simp_all add: keywordSearch_settle_def semanticSearch_settle_def)
qed

lemma settle_success: "error (settle p (Inr r) s) = error s \<and> \<not> loading (settle p (Inr r) s)"
proof -
  obtain k n cur where p: "p = (k, n, cur)" by (cases p) auto
  show ?thesis unfolding p
    by (cases k) (simp_all add: keywordSearch_settle_def semanticSearch_settle_def)
qed

lemma reachable_exclusive: "reachable c \<Longrightarrow> \<not> (loading (fst c) \<and> error (fst c) \<noteq> None)"
proof (induction rule: reachable.induct)
  case (r_settle s ps p outcome)
  show ?case
    using settle_failure settle_success by (cases outcome) simp_all
qed (auto simp: initialSearchState_def setQuery_def setResults_def clearResults_def clearError_def
      keywordSearch_issue_def semanticSearch_issue_def Let_def)

lemma reachable_failed:
  "reachable (keywordSearch ''AI'' 0 (Inl OtherFailure) initialSearchState, [])"
proof -
  let ?s1 = "initialSearchState\<lparr>loading := True, error := None, query := ''AI'', results := []\<rparr>"
  let ?call = "KeywordSearchCall \<lparr>query_req = ''AI'', limit = Some 20, offset = Some 0\<rparr>"
  have i: "keywordSearch_issue ''AI'' 0 initialSearchState = (?s1, [], ?call)"
    by (simp add: keywordSearch_issue_def)
  have "reachable (?s1, [(Keyword, 0, [])])"
    by (rule r_keyword_issue [OF r_init i])
  from r_settle [OF this, of "(Keyword, 0, [])" "Inl OtherFailure"]
  show ?thesis by (simp add: keywordSearch_def i)
qed

theorem loading_error_exclusive:
  assumes "reachable (s, ps)"
  shows "\<not> (loading s \<and> error s \<noteq> None) \<and>
         error (settle p (Inl t) s) \<noteq> None \<and> \<not> loading (settle p (Inl t) s)"
  using reachable_exclusive [OF assms] settle_failure by simp

theorem loading_error_exclusive_witness:
  "reachable (keywordSearch ''AI'' 0 (Inl OtherFailure) initialSearchState, []) \<and>
   error (keywordSearch ''AI'' 0 (Inl OtherFailure) initialSearchState) = Some keywordFallback \<and>
   \<not> loading (keywordSearch ''AI'' 0 (Inl OtherFailure) initialSearchState)"
  using loading_error_exclusive [OF reachable_failed] reachable_failed
  by (simp add: search_defs)

text \<open>
  Claim C7. \<^verbatim>\<open>clearResults\<close> leaves \<open>results\<close> empty, \<open>total\<close> 0, \<open>hasMore\<close> true and \<open>error\<close>
  absent, and does not touch \<open>query\<close> (nor \<open>loading\<close>); a second call changes nothing.
\<close>

theorem clearResults_resets_idempotent:
  "results (clearResults s) = [] \<and> total_st (clearResults s) = 0 \<and>
   hasMore (clearResults s) = True \<and> error (clearResults s) = None \<and>
   query (clearResults s) = query s \<and> loading (clearResults s) = loading s \<and>
   clearResults (clearResults s) = clearResults s"
  by (simp add: clearResults_def)

text \<open>
  Claim C8. \<^verbatim>\<open>semanticSearch\<close> makes the transition \<^verbatim>\<open>keywordSearch\<close> makes, from every state,
  for every query, offset and outcome, but for two things: the endpoint it calls (the
  request is the same), and the fallback message it stores when the failure is not an
  \<^verbatim>\<open>ApiError\<close>. On success, and on a failure that carries a message, the final states are
  equal; so are the two parts of the actions taken one by one.
\<close>

theorem semanticSearch_matches_keywordSearch:
  "semanticSearch q n (Inr r) s = keywordSearch q n (Inr r) s \<and>
   semanticSearch q n (Inl (ApiFailure e)) s = keywordSearch q n (Inl (ApiFailure e)) s \<and>
   semanticSearch q n (Inl OtherFailure) s =
     (keywordSearch q n (Inl OtherFailure) s)\<lparr>error := Some semanticFallback\<rparr> \<and>
   error (keywordSearch q n (Inl OtherFailure) s) = Some keywordFallback \<and>
   keywordFallback \<noteq> semanticFallback \<and>
   fst (semanticSearch_issue q n s) = fst (keywordSearch_issue q n s) \<and>
   fst (snd (semanticSearch_issue q n s)) = fst (snd (keywordSearch_issue q n s)) \<and>
   snd (snd (keywordSearch_issue q n s)) =
     KeywordSearchCall \<lparr>query_req = q, limit = Some 20, offset = Some n\<rparr> \<and>
   snd (snd (semanticSearch_issue q n s)) =
     SemanticSearchCall \<lparr>query_req = q, limit = Some 20, offset = Some n\<rparr> \<and>
   semanticSearch_settle n cur (Inr r) s = keywordSearch_settle n cur (Inr r) s \<and>
   semanticSearch_settle n cur (Inl (ApiFailure e)) s =
     keywordSearch_settle n cur (Inl (ApiFailure e)) s"
  using fallbacks_differ by (simp add: search_defs)

text \<open>
  Claim C9. A failed search is not atomic: with offset 0 the results were emptied when the
  request was issued and the \<^verbatim>\<open>catch\<close> block does not put them back, while \<open>total\<close> keeps
  the value it had before the call.
\<close>

theorem failed_search_not_atomic:
  "results (keywordSearch q 0 (Inl t) s) = [] \<and>
   total_st (keywordSearch q 0 (Inl t) s) = total_st s \<and>
   results (semanticSearch q 0 (Inl t) s) = [] \<and>
   total_st (semanticSearch q 0 (Inl t) s) = total_st s"
  by (simp add: search_defs)

section \<open>Properties of the question store\<close>

text \<open>
  Claim C4, as stated: \<^verbatim>\<open>askQuestion\<close> with blank text is a no-op, rejected before any
  request. The action has no such test. With the empty text, and with three spaces, it
  writes the store and issues the request.
\<close>

theorem askQuestion_blank_counterexample:
  "fst (askQuestion_issue '''' 5 initialRAGState) \<noteq> initialRAGState \<and>
   snd (askQuestion_issue '''' 5 initialRAGState) =
     RagSearchCall \<lparr>question_req = '''', max_articles = Some 5, include_sources = Some True\<rparr> \<and>
   fst (askQuestion_issue ''   '' 5 initialRAGState) \<noteq> initialRAGState \<and>
   snd (askQuestion_issue ''   '' 5 initialRAGState) =
     RagSearchCall \<lparr>question_req = ''   '', max_articles = Some 5, include_sources = Some True\<rparr>"
  by (simp add: askQuestion_issue_def initialRAGState_def)

text \<open>
  Claim C4, amended. \<^verbatim>\<open>askQuestion\<close> does not look at its text: for every question, blank or
  not, it sets \<open>loading\<close>, stores the text and issues the request with that text, the given
  \<^verbatim>\<open>max_articles\<close> and \<^verbatim>\<open>include_sources\<close> true. Keeping blank text out is the caller's part.
\<close>

theorem askQuestion_always_issues:
  "snd (askQuestion_issue q n s) =
     RagSearchCall \<lparr>question_req = q, max_articles = Some n, include_sources = Some True\<rparr> \<and>
   loading_rag (fst (askQuestion_issue q n s)) \<and>
   question (fst (askQuestion_issue q n s)) = q"
  by (simp add: askQuestion_issue_def)

text \<open>
  Claim C5. An \<^verbatim>\<open>askQuestion\<close> call that fails leaves \<open>error\<close> set to the failure's message
  or to the fallback string, \<open>loading\<close> false, and \<open>answer\<close>, \<open>sources\<close> and \<open>confidence\<close> at
  their reset values: absent, empty and 0.
\<close>

theorem askQuestion_failure_state:
  "error_rag (askQuestion q n (Inl (ApiFailure e)) s) = Some (message e) \<and>
   error_rag (askQuestion q n (Inl OtherFailure) s) = Some ragFallback \<and>
   loading_rag (askQuestion q n (Inl t) s) = False \<and>
   answer (askQuestion q n (Inl t) s) = None \<and>
   sources (askQuestion q n (Inl t) s) = [] \<and>
   confidence (askQuestion q n (Inl t) s) = 0"
  by (simp add: ask_defs)

text \<open>
  Claim C10. \<^verbatim>\<open>askQuestion q n\<close> writes \<open>q\<close> into \<open>question\<close> when it issues the request, and
  neither settlement touches the field: the final state has \<open>question = q\<close> on success and
  on failure, whatever an earlier \<^verbatim>\<open>setQuestion\<close> stored.
\<close>

theorem askQuestion_overwrites_question:
  "question (fst (askQuestion_issue q n s)) = q \<and>
   question (askQuestion q n outcome s) = q \<and>
   question (askQuestion q n outcome (setQuestion q' s)) = q"
  by (cases outcome) (simp_all add: ask_defs)

end
